theory Spec2Isabelle
  imports Complex_Main "HOL-Library.Word" "HOL-Library.Log_Nat"
begin

section \<open>JavaScript values\<close>

text \<open>
  A JavaScript string is a sequence of UTF-16 code units, and \<open>length\<close> counts code
  units. ASCII literals of the source are written through \<open>utf16\<close>.
\<close>

type_synonym jsstring = "16 word list"

definition utf16 :: "string \<Rightarrow> jsstring" where
  "utf16 s = map (\<lambda>c. of_nat (of_char c)) s"

text \<open>
  The values a parsed JSON body can hold, and the values the handlers send back.
  \<open>Num\<close> is a finite number (every double is a rational); \<open>Infinite\<close> stands for
  \<open>Infinity\<close> and \<open>-Infinity\<close>; their \<open>typeof\<close> and that of \<open>NaN\<close> is \<open>number\<close> too.
\<close>

datatype jsval =
    Undefined
  | Null
  | Bool bool
  | Num rat
  | NaN
  | Infinite
  | Str jsstring
  | Arr "jsval list"
  | Obj "(string \<times> jsval) list"

datatype jstype = TUndefined | TObject | TBoolean | TNumber | TString

fun typeof :: "jsval \<Rightarrow> jstype" where
  "typeof Undefined = TUndefined"
| "typeof Null = TObject"
| "typeof (Bool b) = TBoolean"
| "typeof (Num q) = TNumber"
| "typeof NaN = TNumber"
| "typeof Infinite = TNumber"
| "typeof (Str s) = TString"
| "typeof (Arr xs) = TObject"
| "typeof (Obj kvs) = TObject"

text \<open>\<open>!v\<close> is \<open>\<not> truthy v\<close>.\<close>

fun truthy :: "jsval \<Rightarrow> bool" where
  "truthy Undefined = False"
| "truthy Null = False"
| "truthy (Bool b) = b"
| "truthy (Num q) = (q \<noteq> 0)"
| "truthy NaN = False"
| "truthy Infinite = True"
| "truthy (Str s) = (s \<noteq> [])"
| "truthy (Arr xs) = True"
| "truthy (Obj kvs) = True"

text \<open>The string behind a value whose \<open>typeof\<close> is \<open>string\<close>, and the number behind a
  finite number. The handlers read them only after the \<open>typeof\<close> test has passed.\<close>

fun as_string :: "jsval \<Rightarrow> jsstring" where
  "as_string (Str s) = s"
| "as_string _ = []"

fun as_number :: "jsval \<Rightarrow> rat" where
  "as_number (Num q) = q"
| "as_number _ = 0"

fun Number_isInteger :: "jsval \<Rightarrow> bool" where
  "Number_isInteger (Num q) = (of_int \<lfloor>q\<rfloor> = q)"
| "Number_isInteger _ = False"

text \<open>
  A JavaScript number is a double. \<open>JSON.parse\<close> reads an integer literal as the double
  nearest to it, ties going to the even significand: exact up to \<open>2 ^ 53\<close>, rounded to a
  multiple of \<open>2 ^ e\<close> beyond, where \<open>e\<close> is the number of bits above 53. (For the naturals
  below \<open>2 ^ 1024\<close>; a \<open>bigint\<close> is below \<open>2 ^ 63\<close>.)
\<close>

definition double_of_nat :: "nat \<Rightarrow> rat" where
  "double_of_nat n =
     (let e = floorlog 2 n - 53;
          q = n div 2 ^ e;
          r = n mod 2 ^ e;
          m = (if 2 * r < 2 ^ e \<or> (2 * r = 2 ^ e \<and> even q) then q else q + 1)
      in of_nat (m * 2 ^ e))"

subsection \<open>\<open>String.prototype.trim\<close> and the sanitising \<open>replace\<close>\<close>

text \<open>\<open>trim\<close> removes WhiteSpace and LineTerminator code points from both ends: TAB, LF,
  VT, FF, CR, SP, NBSP, U+1680, U+2000..U+200A, U+2028, U+2029, U+202F, U+205F, U+3000
  and U+FEFF. All of them are single code units.\<close>

definition is_space :: "16 word \<Rightarrow> bool" where
  "is_space c =
     (c = 0x9 \<or> c = 0xA \<or> c = 0xB \<or> c = 0xC \<or> c = 0xD \<or> c = 0x20 \<or> c = 0xA0
      \<or> c = 0x1680 \<or> (0x2000 \<le> c \<and> c \<le> 0x200A) \<or> c = 0x2028 \<or> c = 0x2029
      \<or> c = 0x202F \<or> c = 0x205F \<or> c = 0x3000 \<or> c = 0xFEFF)"

definition trim :: "jsstring \<Rightarrow> jsstring" where
  "trim s = rev (dropWhile is_space (rev (dropWhile is_space s)))"

text \<open>\<open>s.replace(/[<>]/g, "")\<close>\<close>

definition strip_angle :: "jsstring \<Rightarrow> jsstring" where
  "strip_angle s = filter (\<lambda>c. c \<noteq> 0x3C \<and> c \<noteq> 0x3E) s"

section \<open>The leaderboard table\<close>

text \<open>A \<open>TIMESTAMPTZ\<close> as the text the store returns for it.\<close>

type_synonym timestamp = jsstring

record row =
  ident :: nat
  name :: jsstring
  score :: int
  created_at :: timestamp

text \<open>The table in heap order, the next value of the \<open>BIGSERIAL\<close> sequence, and the order
  in which the store returns rows that an \<open>ORDER BY\<close> leaves equal: SQL does not fix that
  order, so it is a part of the store's state that takes any value (\<open>tie_rank\<close> ranks the
  rows; lower comes first).\<close>

record db =
  rows :: "row list"
  seq :: nat
  tie_rank :: "row \<Rightarrow> nat"

definition empty_db :: db where
  "empty_db = \<lparr>rows = [], seq = 1, tie_rank = (\<lambda>r. 0)\<rparr>"

datatype pg_error = InvalidText | SequenceExhausted | CheckViolation | UniqueViolation

text \<open>\<open>char_length\<close> counts characters: a surrogate pair of the UTF-16 text is one
  character of the stored text.\<close>

definition is_high_surrogate :: "16 word \<Rightarrow> bool" where
  "is_high_surrogate c = (0xD800 \<le> c \<and> c \<le> 0xDBFF)"

definition is_low_surrogate :: "16 word \<Rightarrow> bool" where
  "is_low_surrogate c = (0xDC00 \<le> c \<and> c \<le> 0xDFFF)"

text \<open>A \<open>TEXT\<close> value cannot hold U+0000, and the UTF-16 text sent by the client is text
  at all only when its surrogates are paired: a request whose name has a zero code unit
  or an unpaired surrogate is refused by the store.\<close>

fun text_ok :: "jsstring \<Rightarrow> bool" where
  "text_ok [] = True"
| "text_ok [c] = (c \<noteq> 0 \<and> \<not> is_high_surrogate c \<and> \<not> is_low_surrogate c)"
| "text_ok (a # b # cs) =
     (if is_high_surrogate a then is_low_surrogate b \<and> text_ok cs
      else a \<noteq> 0 \<and> \<not> is_low_surrogate a \<and> text_ok (b # cs))"

fun char_length :: "jsstring \<Rightarrow> nat" where
  "char_length [] = 0"
| "char_length [c] = 1"
| "char_length (a # b # cs) =
     (if is_high_surrogate a \<and> is_low_surrogate b then Suc (char_length cs)
      else Suc (char_length (b # cs)))"

text \<open>The trigger \<open>keep_best_score\<close>, run after the insert of \<open>new\<close>: it deletes the rows
  with \<open>name = NEW.name AND score < NEW.score AND id != NEW.id\<close>.\<close>

definition keep_best_score :: "row \<Rightarrow> row list \<Rightarrow> row list" where
  "keep_best_score new rs =
     filter (\<lambda>r. \<not> (name r = name new \<and> score r < score new \<and> ident r \<noteq> ident new)) rs"

text \<open>\<open>INSERT INTO leaderboard (name, score) VALUES (n, s) RETURNING *\<close> at time \<open>now\<close>.
  A name that is not text is refused before a row is built. The id is the sequence's next
  value (a \<open>bigint\<close>; the sequence moves on even when the insert fails), \<open>created_at\<close> is
  \<open>NOW()\<close>; the \<open>CHECK\<close> constraints and the primary key are tested, then the row is stored
  and the trigger runs.\<close>

definition pg_insert :: "timestamp \<Rightarrow> jsstring \<Rightarrow> int \<Rightarrow> db \<Rightarrow> (pg_error + row) \<times> db" where
  "pg_insert now n s d =
     (if \<not> text_ok n then (Inl InvalidText, d)
      else if 2 ^ 63 - 1 < seq d then (Inl SequenceExhausted, d)
      else
        let new = \<lparr>ident = seq d, name = n, score = s, created_at = now\<rparr>;
            d1 = d\<lparr>seq := seq d + 1\<rparr>
        in if \<not> (1 \<le> char_length n \<and> char_length n \<le> 20) \<or> \<not> (0 \<le> s \<and> s \<le> 999999)
           then (Inl CheckViolation, d1)
           else if ident new \<in> ident ` set (rows d) then (Inl UniqueViolation, d1)
           else (Inr new, d1\<lparr>rows := keep_best_score new (rows d @ [new])\<rparr>))"

text \<open>\<open>ORDER BY score DESC\<close>: by score, highest first; rows of equal score come in the
  order of the store's \<open>tie_rank\<close> (the sort by score is stable). \<open>LIMIT k\<close> takes the
  first \<open>k\<close>.\<close>

definition order_by_score_desc :: "(row \<Rightarrow> nat) \<Rightarrow> row list \<Rightarrow> row list" where
  "order_by_score_desc tie rs = sort_key (\<lambda>r. - score r) (sort_key tie rs)"

definition select_top :: "nat \<Rightarrow> db \<Rightarrow> row list" where
  "select_top k d = take k (order_by_score_desc (tie_rank d) (rows d))"

section \<open>The store client\<close>

text \<open>
  A call of the client resolves to \<open>{data, error, count}\<close>: a failure of the store or of
  the network is reported in \<open>error\<close>, with \<open>data\<close> and \<open>count\<close> null (that is what the
  handlers' \<open>if(error) throw error\<close> reads). The handlers also wrap the calls in
  \<open>try\<close>/\<open>catch\<close>, so an \<open>await\<close> that rejects is a third outcome. The connection is
  \<open>Up\<close> (the store answers), \<open>Down\<close> (the call resolves with \<open>error\<close> set) or \<open>Throws\<close>
  (the \<open>await\<close> rejects).
\<close>

record 'a reply =
  data :: "'a option"
  error :: "jsstring option"
  count :: "nat option"

datatype 'a awaited = Resolved 'a | Rejected

datatype link = Up | Down | Throws

datatype store_req = InsertReq jsstring int | SelectScoresReq | CountReq | SelectBestReq

text \<open>The world outside the Gateway: the table, the store's clock, the state of the
  connection, and the requests sent to the store so far.\<close>

record world =
  store :: db
  clock :: timestamp
  link :: link
  sent :: "store_req list"

definition failed :: "jsstring \<Rightarrow> 'a reply" where
  "failed msg = \<lparr>data = None, error = Some msg, count = None\<rparr>"

definition pg_message :: "pg_error \<Rightarrow> jsstring" where
  "pg_message e =
     (case e of
        InvalidText \<Rightarrow> utf16 ''unsupported Unicode escape sequence''
      | SequenceExhausted \<Rightarrow> utf16 ''nextval: reached maximum value of sequence''
      | CheckViolation \<Rightarrow> utf16 ''new row violates check constraint''
      | UniqueViolation \<Rightarrow> utf16 ''duplicate key value violates unique constraint'')"

text \<open>\<open>.from("leaderboard").insert({name, score}).select("id,name,score,created_at").single()\<close>\<close>

definition sb_insert :: "jsstring \<Rightarrow> int \<Rightarrow> world \<Rightarrow> row reply awaited \<times> world" where
  "sb_insert n s w =
     (let w1 = w\<lparr>sent := sent w @ [InsertReq n s]\<rparr>
      in case link w of
           Throws \<Rightarrow> (Rejected, w1)
         | Down \<Rightarrow> (Resolved (failed (utf16 ''fetch failed'')), w1)
         | Up \<Rightarrow>
             (case pg_insert (clock w) n s (store w) of
                (Inl e, d) \<Rightarrow> (Resolved (failed (pg_message e)), w1\<lparr>store := d\<rparr>)
              | (Inr r, d) \<Rightarrow>
                  (Resolved \<lparr>data = Some r, error = None, count = None\<rparr>, w1\<lparr>store := d\<rparr>)))"

text \<open>\<open>.select("id,name,score,created_at").order("score",{ascending:false}).limit(20)\<close>\<close>

definition sb_select_scores :: "world \<Rightarrow> row list reply awaited \<times> world" where
  "sb_select_scores w =
     (let w1 = w\<lparr>sent := sent w @ [SelectScoresReq]\<rparr>
      in case link w of
           Throws \<Rightarrow> (Rejected, w1)
         | Down \<Rightarrow> (Resolved (failed (utf16 ''fetch failed'')), w1)
         | Up \<Rightarrow>
             (Resolved \<lparr>data = Some (select_top 20 (store w)), error = None, count = None\<rparr>, w1))"

text \<open>\<open>.select("*",{count:"exact",head:true})\<close>\<close>

definition sb_count :: "world \<Rightarrow> row list reply awaited \<times> world" where
  "sb_count w =
     (let w1 = w\<lparr>sent := sent w @ [CountReq]\<rparr>
      in case link w of
           Throws \<Rightarrow> (Rejected, w1)
         | Down \<Rightarrow> (Resolved (failed (utf16 ''fetch failed'')), w1)
         | Up \<Rightarrow>
             (Resolved \<lparr>data = None, error = None, count = Some (length (rows (store w)))\<rparr>, w1))"

text \<open>\<open>.select("score,name").order("score",{ascending:false}).limit(1).single()\<close>:
  \<open>single\<close> reports an error unless exactly one row comes back.\<close>

definition sb_select_best :: "world \<Rightarrow> row reply awaited \<times> world" where
  "sb_select_best w =
     (let w1 = w\<lparr>sent := sent w @ [SelectBestReq]\<rparr>
      in case link w of
           Throws \<Rightarrow> (Rejected, w1)
         | Down \<Rightarrow> (Resolved (failed (utf16 ''fetch failed'')), w1)
         | Up \<Rightarrow>
             (case select_top 1 (store w) of
                [r] \<Rightarrow> (Resolved \<lparr>data = Some r, error = None, count = None\<rparr>, w1)
              | _ \<Rightarrow> (Resolved (failed (utf16 ''JSON object requested, multiple (or no) rows returned'')), w1)))"

section \<open>The Gateway\<close>

text \<open>
  The route handlers, below the middleware (CORS, security headers, rate limiting, static
  files), which is configuration of library code. A handler takes what it reads (the
  configuration, the fields of the parsed body, the world) and returns its response, and
  the world after its store calls.
\<close>

record response =
  status :: nat
  body :: jsval

definition json :: "jsval \<Rightarrow> response" where
  "json v = \<lparr>status = 200, body = v\<rparr>"

definition status_json :: "nat \<Rightarrow> jsval \<Rightarrow> response" where
  "status_json c v = \<lparr>status = c, body = v\<rparr>"

definition error_body :: "jsstring \<Rightarrow> jsval" where
  "error_body msg = Obj [(''error'', Str msg)]"

text \<open>The columns \<open>id,name,score,created_at\<close> of a row, and the columns \<open>score,name\<close>, as
  the client hands them to the handler: the \<open>bigint\<close> id and the row count have gone through
  \<open>JSON.parse\<close> and are doubles; an \<open>INTEGER\<close> score is a double exactly.\<close>

definition entry_json :: "row \<Rightarrow> jsval" where
  "entry_json r =
     Obj [(''id'', Num (double_of_nat (ident r))), (''name'', Str (name r)),
          (''score'', Num (of_int (score r))), (''created_at'', Str (created_at r))]"

definition best_json :: "row \<Rightarrow> jsval" where
  "best_json r = Obj [(''score'', Num (of_int (score r))), (''name'', Str (name r))]"

subsection \<open>Configuration\<close>

record env =
  SUPABASE_URL :: "jsstring option"
  SUPABASE_ANON_KEY :: "jsstring option"
  SUPABASE_SERVICE_ROLE_KEY :: "jsstring option"

definition env_val :: "jsstring option \<Rightarrow> jsval" where
  "env_val v = (case v of None \<Rightarrow> Undefined | Some s \<Rightarrow> Str s)"

subsection \<open>\<open>GET /api/config\<close>\<close>

definition get_config :: "env \<Rightarrow> response" where
  "get_config e =
     (if \<not> truthy (env_val (SUPABASE_URL e)) \<or> \<not> truthy (env_val (SUPABASE_ANON_KEY e))
      then status_json 503 (error_body (utf16 ''Server not configured''))
      else json (Obj [(''supabaseUrl'', env_val (SUPABASE_URL e)),
                      (''supabaseKey'', env_val (SUPABASE_ANON_KEY e))]))"

subsection \<open>\<open>GET /api/scores\<close>\<close>

definition get_scores :: "world \<Rightarrow> response \<times> world" where
  "get_scores w =
     (case sb_select_scores w of
        (Rejected, w') \<Rightarrow> (status_json 500 (error_body (utf16 ''Could not fetch scores'')), w')
      | (Resolved r, w') \<Rightarrow>
          (case error r of
             Some e \<Rightarrow> (status_json 500 (error_body (utf16 ''Could not fetch scores'')), w')
           | None \<Rightarrow>
               (json (Obj [(''scores'',
                  (case data r of None \<Rightarrow> Null | Some rs \<Rightarrow> Arr (map entry_json rs)))]), w')))"

subsection \<open>\<open>POST /api/scores\<close>\<close>

definition name_msg :: jsstring where
  "name_msg = utf16 ''Name must be 1'' @ [0x2013] @ utf16 ''20 characters''"

definition score_msg :: jsstring where
  "score_msg = utf16 ''Invalid score''"

text \<open>\<open>name\<close> and \<open>score\<close> are the two fields read from the parsed body (\<open>Undefined\<close> when
  the body has no such field).\<close>

definition post_scores :: "jsval \<Rightarrow> jsval \<Rightarrow> world \<Rightarrow> response \<times> world" where
  "post_scores nm sc w =
     (if \<not> truthy nm \<or> typeof nm \<noteq> TString \<or> length (trim (as_string nm)) < 1
         \<or> length (trim (as_string nm)) > 20
      then (status_json 400 (error_body name_msg), w)
      else if typeof sc \<noteq> TNumber \<or> \<not> Number_isInteger sc \<or> as_number sc < 0
         \<or> as_number sc > 999999
      then (status_json 400 (error_body score_msg), w)
      else
        let cleanName = strip_angle (trim (as_string nm))
        in case sb_insert cleanName \<lfloor>as_number sc\<rfloor> w of
             (Rejected, w') \<Rightarrow> (status_json 500 (error_body (utf16 ''Could not save score'')), w')
           | (Resolved r, w') \<Rightarrow>
               (case error r of
                  Some e \<Rightarrow> (status_json 500 (error_body (utf16 ''Could not save score'')), w')
                | None \<Rightarrow>
                    (status_json 201 (Obj [(''success'', Bool True),
                       (''entry'', (case data r of None \<Rightarrow> Null | Some x \<Rightarrow> entry_json x))]), w')))"

subsection \<open>\<open>GET /api/stats\<close>\<close>

text \<open>The handler reads \<open>count\<close> of the first reply and \<open>data\<close> of the second, and never
  looks at \<open>error\<close>; only a rejected \<open>await\<close> reaches the \<open>catch\<close>.\<close>

definition get_stats :: "world \<Rightarrow> response \<times> world" where
  "get_stats w =
     (case sb_count w of
        (Rejected, w1) \<Rightarrow> (status_json 500 (error_body (utf16 ''Stats unavailable'')), w1)
      | (Resolved r1, w1) \<Rightarrow>
          (case sb_select_best w1 of
             (Rejected, w2) \<Rightarrow> (status_json 500 (error_body (utf16 ''Stats unavailable'')), w2)
           | (Resolved r2, w2) \<Rightarrow>
               (json (Obj [(''totalGames'',
                             (case count r1 of None \<Rightarrow> Num 0
                              | Some c \<Rightarrow> if c = 0 then Num 0 else Num (double_of_nat c))),
                           (''allTimeHigh'',
                             (case data r2 of None \<Rightarrow> Null | Some top1 \<Rightarrow> best_json top1))]), w2)))"

subsection \<open>\<open>GET /health\<close>\<close>

text \<open>\<open>ts\<close> is \<open>new Date().toISOString()\<close>, the Gateway's own clock.\<close>

definition health :: "timestamp \<Rightarrow> env \<Rightarrow> response" where
  "health ts e =
     json (Obj [(''status'', Str (utf16 ''ok'')), (''ts'', Str ts),
                (''env'', Obj [(''supabase'', Bool (truthy (env_val (SUPABASE_URL e)))),
                               (''anonKey'', Bool (truthy (env_val (SUPABASE_ANON_KEY e)))),
                               (''svcKey'', Bool (truthy (env_val (SUPABASE_SERVICE_ROLE_KEY e))))])])"

subsection \<open>The five routes\<close>

datatype request = GetConfig | ListTopScores | SubmitScore jsval jsval | GetStats | HealthCheck

definition handle :: "env \<Rightarrow> timestamp \<Rightarrow> request \<Rightarrow> world \<Rightarrow> response \<times> world" where
  "handle e ts rq w =
     (case rq of
        GetConfig \<Rightarrow> (get_config e, w)
      | ListTopScores \<Rightarrow> get_scores w
      | SubmitScore nm sc \<Rightarrow> post_scores nm sc w
      | GetStats \<Rightarrow> get_stats w
      | HealthCheck \<Rightarrow> (health ts e, w))"

section \<open>The specification's wording\<close>

text \<open>A valid name in the specification's words: a string whose trimmed length is between
  1 and 20. A valid score: an integer between 0 and 999999.\<close>

definition name_in_spec :: "jsval \<Rightarrow> bool" where
  "name_in_spec v =
     (case v of Str s \<Rightarrow> 1 \<le> length (trim s) \<and> length (trim s) \<le> 20 | _ \<Rightarrow> False)"

definition score_in_spec :: "jsval \<Rightarrow> bool" where
  "score_in_spec v = (case v of Num q \<Rightarrow> q \<in> \<int> \<and> 0 \<le> q \<and> q \<le> 999999 | _ \<Rightarrow> False)"

text \<open>An empty table behind a live connection, with the store's clock at \<open>t\<close>.\<close>

definition fresh_world :: "timestamp \<Rightarrow> world" where
  "fresh_world t = \<lparr>store = empty_db, clock = t, link = Up, sent = []\<rparr>"

text \<open>The player of the specification's examples.\<close>

definition alice :: jsstring where
  "alice = utf16 ''Alice''"

text \<open>The markup name of the specification's example, and a name of 21 code units of
  which 20 are left once the angle bracket is stripped.\<close>

definition bob_markup :: jsstring where
  "bob_markup = utf16 ''<b>Bob</b>''"

definition long_markup :: jsstring where
  "long_markup = utf16 ''<aaaaaaaaaaaaaaaaaaaa''"

text \<open>A table of 25 rows with the scores 0, 10, ..., 240.\<close>

definition table25 :: db where
  "table25 =
     \<lparr>rows = map (\<lambda>i. \<lparr>ident = Suc i, name = [0x41 + of_nat i], score = 10 * int i,
                       created_at = []\<rparr>) [0..<25],
      seq = 26, tie_rank = (\<lambda>r. 0)\<rparr>"

section \<open>Facts about the model\<close>

lemma double_of_nat_exact:
  assumes "n \<le> 2 ^ 53"
  shows "double_of_nat n = of_nat n"
proof (cases "n < 2 ^ 53")
  case True
  then have "floorlog 2 n \<le> 53"
    by (simp add: floorlog_le_iff)
  then show ?thesis
    by (simp add: double_of_nat_def)
next
  case False
  with assms have n: "n = 1 * 2 ^ 53"
    by simp
  have "floorlog 2 n = 54"
    unfolding n by (subst floorlog_power) (simp_all add: floorlog_def)
  then show ?thesis
    by (simp add: double_of_nat_def n)
qed

lemma double_of_nat_0: "double_of_nat 0 = 0"
  by (simp add: double_of_nat_exact)

text \<open>Beyond \<open>2 ^ 53\<close> an id comes back rounded: \<open>2 ^ 53 + 1\<close> is read as \<open>2 ^ 53\<close>.\<close>

lemma double_of_nat_rounds: "double_of_nat 9007199254740993 = 9007199254740992"
proof -
  have "floorlog 2 9007199254740993 \<le> 54"
    by (simp add: floorlog_le_iff)
  moreover have "Suc 53 \<le> floorlog 2 9007199254740993"
    by (rule floorlog_ge_SucI) simp_all
  ultimately have "floorlog 2 9007199254740993 = 54"
    by simp
  then show ?thesis
    by (simp add: double_of_nat_def)
qed

lemma char_length_le: "char_length s \<le> length s"
  by (induction s rule: char_length.induct) auto

lemma char_length_pos: "s \<noteq> [] \<Longrightarrow> 1 \<le> char_length s"
  by (induction s rule: char_length.induct) auto

lemma length_strip_angle: "length (strip_angle s) \<le> length s"
  by (simp add: strip_angle_def)

lemma trim_Nil: "trim [] = []"
  by (simp add: trim_def)

lemma name_in_spec_iff:
  "name_in_spec nm \<longleftrightarrow>
     \<not> (\<not> truthy nm \<or> typeof nm \<noteq> TString \<or> length (trim (as_string nm)) < 1
        \<or> length (trim (as_string nm)) > 20)"
proof (cases nm)
  case (Str s)
  have "s \<noteq> []" if "1 \<le> length (trim s)"
    using that trim_Nil by fastforce
  with Str show ?thesis
    by (auto simp: name_in_spec_def Suc_le_eq)
qed (simp_all add: name_in_spec_def)

lemma isInteger_Num: "Number_isInteger (Num q) \<longleftrightarrow> q \<in> \<int>"
  by (auto simp: Ints_def)

lemma floor_five_halves: "\<lfloor>5 / 2 :: rat\<rfloor> = 2"
  by (rule floor_unique) simp_all

lemma score_in_spec_iff:
  "score_in_spec sc \<longleftrightarrow>
     \<not> (typeof sc \<noteq> TNumber \<or> \<not> Number_isInteger sc \<or> as_number sc < 0
        \<or> as_number sc > 999999)"
proof (cases sc)
  case (Num q)
  then show ?thesis
    using isInteger_Num [of q] by (auto simp: score_in_spec_def simp del: Number_isInteger.simps)
qed (simp_all add: score_in_spec_def)

lemma pg_insert_Inr:
  assumes "pg_insert now n s d = (Inr new, d')"
  shows "new = \<lparr>ident = seq d, name = n, score = s, created_at = now\<rparr>"
    and "seq d \<notin> ident ` set (rows d)"
    and "rows d' = keep_best_score new (rows d @ [new])"
    and "seq d' = seq d + 1"
    and "1 \<le> char_length n" and "char_length n \<le> 20" and "0 \<le> s" and "s \<le> 999999"
    and "text_ok n"
  using assms by (auto simp: pg_insert_def Let_def split: if_splits)

lemma pg_insert_ok:
  assumes "seq d \<le> 2 ^ 63 - 1" and "1 \<le> char_length n" and "char_length n \<le> 20"
    and "0 \<le> s" and "s \<le> 999999" and "seq d \<notin> ident ` set (rows d)" and "text_ok n"
  shows "pg_insert now n s d =
     (Inr \<lparr>ident = seq d, name = n, score = s, created_at = now\<rparr>,
      d\<lparr>seq := seq d + 1,
        rows := keep_best_score \<lparr>ident = seq d, name = n, score = s, created_at = now\<rparr>
                  (rows d @ [\<lparr>ident = seq d, name = n, score = s, created_at = now\<rparr>])\<rparr>)"
  using assms by (simp add: pg_insert_def Let_def)

lemma sorted_order_by_score_desc:
  "sorted_wrt (\<lambda>a b. score b \<le> score a) (order_by_score_desc tie rs)"
proof -
  have "sorted (map (\<lambda>r. - score r) (sort_key (\<lambda>r. - score r) (sort_key tie rs)))"
    by (rule sorted_sort_key)
  then show ?thesis
    by (simp add: order_by_score_desc_def sorted_map)
qed

lemma length_order_by_score_desc: "length (order_by_score_desc tie rs) = length rs"
  by (simp add: order_by_score_desc_def)

lemma set_order_by_score_desc: "set (order_by_score_desc tie rs) = set rs"
  by (simp add: order_by_score_desc_def)

section \<open>Validation of a submission\<close>

lemma post_scores_rejects_name:
  "\<not> name_in_spec nm \<Longrightarrow> post_scores nm sc w = (status_json 400 (error_body name_msg), w)"
  unfolding name_in_spec_iff by (simp add: post_scores_def)

lemma post_scores_rejects_score:
  "name_in_spec nm \<Longrightarrow> \<not> score_in_spec sc \<Longrightarrow>
   post_scores nm sc w = (status_json 400 (error_body score_msg), w)"
  unfolding name_in_spec_iff score_in_spec_iff by (simp add: post_scores_def)

lemma sent_sb_insert: "sent (snd (sb_insert n s w)) = sent w @ [InsertReq n s]"
  by (simp add: sb_insert_def Let_def split: link.splits prod.splits sum.splits)

lemma post_scores_accepts:
  assumes "name_in_spec (Str s)" and "score_in_spec (Num q)"
  shows "post_scores (Str s) (Num q) w =
     (case sb_insert (strip_angle (trim s)) \<lfloor>q\<rfloor> w of
        (Rejected, w') \<Rightarrow> (status_json 500 (error_body (utf16 ''Could not save score'')), w')
      | (Resolved r, w') \<Rightarrow>
          (case error r of
             Some e \<Rightarrow> (status_json 500 (error_body (utf16 ''Could not save score'')), w')
           | None \<Rightarrow>
               (status_json 201 (Obj [(''success'', Bool True),
                  (''entry'', (case data r of None \<Rightarrow> Null | Some x \<Rightarrow> entry_json x))]), w')))"
  using assms unfolding name_in_spec_iff score_in_spec_iff
  by (simp add: post_scores_def Let_def)

lemma sent_post_scores:
  assumes "name_in_spec (Str s)" and "score_in_spec (Num q)"
  shows "sent (snd (post_scores (Str s) (Num q) w)) = sent w @ [InsertReq (strip_angle (trim s)) \<lfloor>q\<rfloor>]"
  using sent_sb_insert [of "strip_angle (trim s)" "\<lfloor>q\<rfloor>" w]
  by (auto simp: post_scores_accepts [OF assms] split: prod.splits awaited.splits option.splits)

text \<open>
  C3. \<open>POST /api/scores\<close> validates the name first and the score second, and sends
  nothing to the store unless both pass: a name that is not a string of trimmed length
  1 to 20 gets status 400 with the name's message and the world is left as it was;
  otherwise a score that is not an integer between 0 and 999999 gets status 400 with the
  score's message and the world is left as it was; and a request has gone to the store
  exactly when both the name and the score are valid.
\<close>

theorem submit_validation_order:
  "(\<not> name_in_spec nm \<longrightarrow>
      post_scores nm sc w = (\<lparr>status = 400, body = Obj [(''error'', Str name_msg)]\<rparr>, w))
   \<and> (name_in_spec nm \<and> \<not> score_in_spec sc \<longrightarrow>
      post_scores nm sc w = (\<lparr>status = 400, body = Obj [(''error'', Str score_msg)]\<rparr>, w))
   \<and> (sent (snd (post_scores nm sc w)) \<noteq> sent w \<longleftrightarrow> name_in_spec nm \<and> score_in_spec sc)"
proof (intro conjI impI)
  assume "\<not> name_in_spec nm"
  then show "post_scores nm sc w = (\<lparr>status = 400, body = Obj [(''error'', Str name_msg)]\<rparr>, w)"
    by (simp add: post_scores_rejects_name status_json_def error_body_def)
next
  assume "name_in_spec nm \<and> \<not> score_in_spec sc"
  then show "post_scores nm sc w = (\<lparr>status = 400, body = Obj [(''error'', Str score_msg)]\<rparr>, w)"
    by (simp add: post_scores_rejects_score status_json_def error_body_def)
next
  show "sent (snd (post_scores nm sc w)) \<noteq> sent w \<longleftrightarrow> name_in_spec nm \<and> score_in_spec sc"
  proof (cases "name_in_spec nm")
    case False
    then show ?thesis by (simp add: post_scores_rejects_name)
  next
    case nm: True
    show ?thesis
    proof (cases "score_in_spec sc")
      case False
      with nm show ?thesis by (simp add: post_scores_rejects_score)
    next
      case True
      from nm obtain s where s: "nm = Str s"
        by (cases nm) (simp_all add: name_in_spec_def)
      from True obtain q where q: "sc = Num q"
        by (cases sc) (simp_all add: score_in_spec_def)
      from nm True show ?thesis
        unfolding s q by (simp add: sent_post_scores)
    qed
  qed
qed

theorem submit_validation_order_witness:
  "post_scores (Num 7) (Num 50) (fresh_world []) =
     (\<lparr>status = 400, body = Obj [(''error'', Str name_msg)]\<rparr>, fresh_world [])
   \<and> post_scores (Str (utf16 ''Alice'')) (Num (5 / 2)) (fresh_world []) =
     (\<lparr>status = 400, body = Obj [(''error'', Str score_msg)]\<rparr>, fresh_world [])
   \<and> sent (snd (post_scores (Str (utf16 ''Alice'')) (Num 50) (fresh_world []))) \<noteq> []"
proof -
  have a: "\<not> name_in_spec (Num 7)"
    by (simp add: name_in_spec_def)
  have b: "name_in_spec (Str (utf16 ''Alice''))"
    by (simp add: name_in_spec_def utf16_def trim_def is_space_def)
  have "\<not> Number_isInteger (Num (5 / 2))"
    by (simp add: floor_five_halves del: of_int_floor_cancel)
  then have "(5 / 2 :: rat) \<notin> \<int>"
    unfolding isInteger_Num .
  then have c: "\<not> score_in_spec (Num (5 / 2))"
    by (simp add: score_in_spec_def)
  have d: "score_in_spec (Num 50)"
    by (simp add: score_in_spec_def)
  have e: "sent (fresh_world []) = []"
    by (simp add: fresh_world_def)
  from submit_validation_order [of "Num 7" "Num 50" "fresh_world []"] a
  have 1: "post_scores (Num 7) (Num 50) (fresh_world []) =
     (\<lparr>status = 400, body = Obj [(''error'', Str name_msg)]\<rparr>, fresh_world [])"
    by blast
  from submit_validation_order [of "Str (utf16 ''Alice'')" "Num (5 / 2)" "fresh_world []"] b c
  have 2: "post_scores (Str (utf16 ''Alice'')) (Num (5 / 2)) (fresh_world []) =
     (\<lparr>status = 400, body = Obj [(''error'', Str score_msg)]\<rparr>, fresh_world [])"
    by blast
  from submit_validation_order [of "Str (utf16 ''Alice'')" "Num 50" "fresh_world []"] b d
  have "sent (snd (post_scores (Str (utf16 ''Alice'')) (Num 50) (fresh_world []))) \<noteq> sent (fresh_world [])"
    by blast
  with e have 3: "sent (snd (post_scores (Str (utf16 ''Alice'')) (Num 50) (fresh_world []))) \<noteq> []"
    by simp
  from 1 2 3 show ?thesis by blast
qed

section \<open>The retention trigger\<close>

lemma pg_insert_rows:
  assumes "pg_insert now n s d = (Inr new, d')"
  shows "rows d' = filter (\<lambda>r. \<not> (name r = n \<and> score r < s)) (rows d) @ [new]"
proof -
  note ins = pg_insert_Inr [OF assms]
  have fresh: "ident r \<noteq> ident new" if "r \<in> set (rows d)" for r
    using that ins(1,2) by force
  have "filter (\<lambda>r. \<not> (name r = name new \<and> score r < score new \<and> ident r \<noteq> ident new)) (rows d)
      = filter (\<lambda>r. \<not> (name r = n \<and> score r < s)) (rows d)"
    by (rule filter_cong) (use fresh ins(1) in auto)
  then show ?thesis
    by (simp add: ins(3) keep_best_score_def)
qed

lemma fresh_insert:
  assumes "1 \<le> char_length n" and "char_length n \<le> 20" and "0 \<le> s" and "s \<le> 999999"
    and "text_ok n"
  shows "pg_insert t n s empty_db =
     (Inr \<lparr>ident = 1, name = n, score = s, created_at = t\<rparr>,
      \<lparr>rows = [\<lparr>ident = 1, name = n, score = s, created_at = t\<rparr>], seq = 2, tie_rank = (\<lambda>r. 0)\<rparr>)"
  using assms by (simp add: pg_insert_def Let_def empty_db_def keep_best_score_def)

lemma alice_ok: "name_in_spec (Str alice)" "strip_angle (trim alice) = alice" "char_length alice = 5"
  "text_ok alice"
  by (simp_all add: alice_def name_in_spec_def utf16_def trim_def is_space_def strip_angle_def
      is_high_surrogate_def is_low_surrogate_def)

text \<open>A submission that passes validation, on a live connection.\<close>

lemma post_scores_Up:
  assumes "name_in_spec (Str s)" and "score_in_spec (Num q)" and "link w = Up"
  shows "post_scores (Str s) (Num q) w =
     (case pg_insert (clock w) (strip_angle (trim s)) \<lfloor>q\<rfloor> (store w) of
        (Inl e, d) \<Rightarrow>
          (\<lparr>status = 500, body = Obj [(''error'', Str (utf16 ''Could not save score''))]\<rparr>,
           w\<lparr>sent := sent w @ [InsertReq (strip_angle (trim s)) \<lfloor>q\<rfloor>], store := d\<rparr>)
      | (Inr r, d) \<Rightarrow>
          (\<lparr>status = 201, body = Obj [(''success'', Bool True), (''entry'', entry_json r)]\<rparr>,
           w\<lparr>sent := sent w @ [InsertReq (strip_angle (trim s)) \<lfloor>q\<rfloor>], store := d\<rparr>))"
  using assms(3)
  by (simp add: post_scores_accepts [OF assms(1,2)] sb_insert_def Let_def failed_def
      status_json_def error_body_def split: prod.splits sum.splits)

lemma alice_50_80:
  "rows (store (snd (post_scores (Str alice) (Num 80)
      (snd (post_scores (Str alice) (Num 50) (fresh_world t))))))
   = [\<lparr>ident = 2, name = alice, score = 80, created_at = t\<rparr>]"
proof -
  have s50: "score_in_spec (Num 50)" and s80: "score_in_spec (Num 80)"
    by (simp_all add: score_in_spec_def)
  have 1: "snd (post_scores (Str alice) (Num 50) (fresh_world t)) =
      \<lparr>store = \<lparr>rows = [\<lparr>ident = 1, name = alice, score = 50, created_at = t\<rparr>], seq = 2, tie_rank = (\<lambda>r. 0)\<rparr>,
       clock = t, link = Up, sent = [InsertReq alice 50]\<rparr>"
    by (simp add: post_scores_Up [OF alice_ok(1) s50] alice_ok fresh_world_def fresh_insert)
  show ?thesis
    unfolding 1
    by (simp add: post_scores_Up [OF alice_ok(1) s80] alice_ok pg_insert_def Let_def keep_best_score_def)
qed

lemma alice_80_50:
  "rows (store (snd (post_scores (Str alice) (Num 50)
      (snd (post_scores (Str alice) (Num 80) (fresh_world t))))))
   = [\<lparr>ident = 1, name = alice, score = 80, created_at = t\<rparr>,
      \<lparr>ident = 2, name = alice, score = 50, created_at = t\<rparr>]"
proof -
  have s50: "score_in_spec (Num 50)" and s80: "score_in_spec (Num 80)"
    by (simp_all add: score_in_spec_def)
  have 1: "snd (post_scores (Str alice) (Num 80) (fresh_world t)) =
      \<lparr>store = \<lparr>rows = [\<lparr>ident = 1, name = alice, score = 80, created_at = t\<rparr>], seq = 2, tie_rank = (\<lambda>r. 0)\<rparr>,
       clock = t, link = Up, sent = [InsertReq alice 80]\<rparr>"
    by (simp add: post_scores_Up [OF alice_ok(1) s80] alice_ok fresh_world_def fresh_insert)
  show ?thesis
    unfolding 1
    by (simp add: post_scores_Up [OF alice_ok(1) s50] alice_ok pg_insert_def Let_def keep_best_score_def)
qed

text \<open>
  C2. When an insert of \<open>(n, s)\<close> succeeds, the table afterwards is the table before with
  every row of name \<open>n\<close> and a score strictly below \<open>s\<close> removed, every other row (so every
  row of that name with an equal or higher score) kept as it was and in its place, and
  the new row added. Submitting Alice 50 and then Alice 80 to an empty table leaves the
  single row Alice 80; submitting Alice 80 and then Alice 50 leaves both rows.
\<close>

theorem retention_after_insert:
  "(pg_insert now n s d = (Inr new, d') \<longrightarrow>
      rows d' = filter (\<lambda>r. \<not> (name r = n \<and> score r < s)) (rows d) @ [new]
      \<and> (\<forall>r \<in> set (rows d). name r = n \<and> score r < s \<longrightarrow> r \<notin> set (rows d'))
      \<and> (\<forall>r \<in> set (rows d). name r = n \<and> s \<le> score r \<longrightarrow> r \<in> set (rows d')))
   \<and> rows (store (snd (post_scores (Str alice) (Num 80)
        (snd (post_scores (Str alice) (Num 50) (fresh_world t))))))
      = [\<lparr>ident = 2, name = alice, score = 80, created_at = t\<rparr>]
   \<and> rows (store (snd (post_scores (Str alice) (Num 50)
        (snd (post_scores (Str alice) (Num 80) (fresh_world t))))))
      = [\<lparr>ident = 1, name = alice, score = 80, created_at = t\<rparr>,
         \<lparr>ident = 2, name = alice, score = 50, created_at = t\<rparr>]"
proof (intro conjI impI)
  assume ins: "pg_insert now n s d = (Inr new, d')"
  show rows: "rows d' = filter (\<lambda>r. \<not> (name r = n \<and> score r < s)) (rows d) @ [new]"
    by (rule pg_insert_rows [OF ins])
  have new: "ident new \<notin> ident ` set (rows d)" "score new = s"
    using pg_insert_Inr(1,2) [OF ins] by simp_all
  show "\<forall>r \<in> set (rows d). name r = n \<and> score r < s \<longrightarrow> r \<notin> set (rows d')"
    using new by (auto simp: rows)
  show "\<forall>r \<in> set (rows d). name r = n \<and> s \<le> score r \<longrightarrow> r \<in> set (rows d')"
    by (auto simp: rows)
qed (rule alice_50_80, rule alice_80_50)

theorem retention_after_insert_witness:
  "rows (snd (pg_insert [] alice 80
      \<lparr>rows = [\<lparr>ident = 1, name = alice, score = 50, created_at = []\<rparr>,
               \<lparr>ident = 2, name = alice, score = 90, created_at = []\<rparr>], seq = 3, tie_rank = (\<lambda>r. 0)\<rparr>))
   = [\<lparr>ident = 2, name = alice, score = 90, created_at = []\<rparr>,
      \<lparr>ident = 3, name = alice, score = 80, created_at = []\<rparr>]"
proof -
  let ?d = "\<lparr>rows = [\<lparr>ident = 1, name = alice, score = 50, created_at = []\<rparr>,
               \<lparr>ident = 2, name = alice, score = 90, created_at = []\<rparr>], seq = 3, tie_rank = (\<lambda>r. 0)\<rparr>"
  let ?new = "\<lparr>ident = 3, name = alice, score = 80, created_at = []\<rparr>"
  obtain d' where ins: "pg_insert [] alice 80 ?d = (Inr ?new, d')"
    by (simp add: pg_insert_def Let_def alice_ok)
  from retention_after_insert [of "[]" alice 80 ?d ?new d' "[]"] ins
  have "rows d' = filter (\<lambda>r. \<not> (name r = alice \<and> score r < 80)) (rows ?d) @ [?new]"
    by blast
  with ins show ?thesis by simp
qed

text \<open>
  C10. The trigger never deletes the row whose insert fired it: it keeps every row that
  carries the new row's id, so it keeps the new row whatever else is in the table (also a
  row of the same name and the same score); and after a successful insert the new row is
  in the table.
\<close>

theorem inserted_row_survives:
  "(\<forall>r \<in> set rs. ident r = ident new \<longrightarrow> r \<in> set (keep_best_score new rs))
   \<and> (new \<in> set rs \<longrightarrow> new \<in> set (keep_best_score new rs))
   \<and> (pg_insert now n s d = (Inr new, d') \<longrightarrow> new \<in> set (rows d'))"
proof (intro conjI impI)
  show "\<forall>r \<in> set rs. ident r = ident new \<longrightarrow> r \<in> set (keep_best_score new rs)"
    by (simp add: keep_best_score_def)
  show "new \<in> set (keep_best_score new rs)" if "new \<in> set rs"
    using that by (simp add: keep_best_score_def)
  show "new \<in> set (rows d')" if "pg_insert now n s d = (Inr new, d')"
    by (simp add: pg_insert_Inr(3) [OF that] keep_best_score_def)
qed

theorem inserted_row_survives_witness:
  "\<lparr>ident = 2, name = alice, score = 80, created_at = []\<rparr>
     \<in> set (rows (snd (pg_insert [] alice 80
          \<lparr>rows = [\<lparr>ident = 1, name = alice, score = 80, created_at = []\<rparr>], seq = 2, tie_rank = (\<lambda>r. 0)\<rparr>)))
   \<and> length (rows (snd (pg_insert [] alice 80
          \<lparr>rows = [\<lparr>ident = 1, name = alice, score = 80, created_at = []\<rparr>], seq = 2, tie_rank = (\<lambda>r. 0)\<rparr>))) = 2"
proof -
  let ?d = "\<lparr>rows = [\<lparr>ident = 1, name = alice, score = 80, created_at = []\<rparr>], seq = 2, tie_rank = (\<lambda>r. 0)\<rparr>"
  let ?new = "\<lparr>ident = 2, name = alice, score = 80, created_at = []\<rparr>"
  obtain d' where ins: "pg_insert [] alice 80 ?d = (Inr ?new, d')"
    by (simp add: pg_insert_def Let_def alice_ok)
  from inserted_row_survives [of "[]" ?new "[]" alice 80 ?d d'] ins
  have "?new \<in> set (rows d')"
    by blast
  moreover have "length (rows (snd (pg_insert [] alice 80 ?d))) = 2"
    by (simp add: pg_insert_def Let_def alice_ok keep_best_score_def)
  ultimately show ?thesis
    using ins by simp
qed

section \<open>Accepted submissions\<close>

lemma pg_insert_Inl_rows:
  "pg_insert now n s d = (Inl e, d') \<Longrightarrow> rows d' = rows d"
  by (auto simp: pg_insert_def Let_def split: if_splits)

lemma sb_insert_new_rows:
  assumes "r \<in> set (rows (store (snd (sb_insert n s w))))" and "r \<notin> set (rows (store w))"
  shows "name r = n \<and> score r = s"
proof (cases "link w")
  case Up
  show ?thesis
  proof (cases "pg_insert (clock w) n s (store w)")
    case (Pair res d')
    show ?thesis
    proof (cases res)
      case (Inl e)
      with Pair Up assms show ?thesis
        by (simp add: sb_insert_def Let_def pg_insert_Inl_rows)
    next
      case (Inr new)
      with Pair have ins: "pg_insert (clock w) n s (store w) = (Inr new, d')"
        by simp
      from assms Up ins have "r = new"
        by (auto simp: sb_insert_def Let_def pg_insert_rows [OF ins])
      with pg_insert_Inr(1) [OF ins] show ?thesis
        by simp
    qed
  qed
next
  case Down
  with assms show ?thesis by (simp add: sb_insert_def Let_def)
next
  case Throws
  with assms show ?thesis by (simp add: sb_insert_def Let_def)
qed

lemma store_post_scores:
  assumes "name_in_spec (Str s)" and "score_in_spec (Num q)"
  shows "store (snd (post_scores (Str s) (Num q) w)) =
         store (snd (sb_insert (strip_angle (trim s)) \<lfloor>q\<rfloor> w))"
  by (auto simp: post_scores_accepts [OF assms] split: prod.splits awaited.splits option.splits)

lemma strip_angle_valid:
  assumes "name_in_spec (Str s)" and "strip_angle (trim s) \<noteq> []"
  shows "1 \<le> char_length (strip_angle (trim s))" and "char_length (strip_angle (trim s)) \<le> 20"
proof -
  show "1 \<le> char_length (strip_angle (trim s))"
    by (rule char_length_pos [OF assms(2)])
  have "char_length (strip_angle (trim s)) \<le> length (strip_angle (trim s))"
    by (rule char_length_le)
  also have "\<dots> \<le> length (trim s)"
    by (rule length_strip_angle)
  also have "\<dots> \<le> 20"
    using assms(1) by (simp add: name_in_spec_def)
  finally show "char_length (strip_angle (trim s)) \<le> 20" .
qed

lemma score_in_spec_floor:
  assumes "score_in_spec (Num q)"
  shows "0 \<le> \<lfloor>q\<rfloor>" and "\<lfloor>q\<rfloor> \<le> 999999" and "of_int \<lfloor>q\<rfloor> = q"
proof -
  from assms have q: "q \<in> \<int>" "0 \<le> q" "q \<le> 999999"
    by (simp_all add: score_in_spec_def)
  from q(2) show "0 \<le> \<lfloor>q\<rfloor>" by simp
  from q(3) show "\<lfloor>q\<rfloor> \<le> 999999" by (simp add: floor_le_iff)
  from q(1) show "of_int \<lfloor>q\<rfloor> = q" by (auto simp: Ints_def)
qed

text \<open>A name with a zero code unit, or with an unpaired surrogate, passes validation and
  is refused by the store: status 500, and no row.\<close>

lemma submit_name_not_text_refused:
  "n = [0x61, 0x0, 0x62] \<or> n = [0x61, 0xD800] \<Longrightarrow>
   name_in_spec (Str n)
   \<and> post_scores (Str n) (Num 0) (fresh_world []) =
       (\<lparr>status = 500, body = Obj [(''error'', Str (utf16 ''Could not save score''))]\<rparr>,
        \<lparr>store = empty_db, clock = [], link = Up, sent = [InsertReq n 0]\<rparr>)"
proof -
  assume n: "n = [0x61, 0x0, 0x62] \<or> n = [0x61, 0xD800]"
  then have v: "name_in_spec (Str n)" and c: "strip_angle (trim n) = n" and t: "\<not> text_ok n"
    by (auto simp: name_in_spec_def trim_def is_space_def strip_angle_def
        is_high_surrogate_def is_low_surrogate_def)
  have s: "score_in_spec (Num 0)"
    by (simp add: score_in_spec_def)
  from t have "post_scores (Str n) (Num 0) (fresh_world []) =
       (\<lparr>status = 500, body = Obj [(''error'', Str (utf16 ''Could not save score''))]\<rparr>,
        \<lparr>store = empty_db, clock = [], link = Up, sent = [InsertReq n 0]\<rparr>)"
    by (simp add: post_scores_Up [OF v s] c fresh_world_def pg_insert_def)
  with v show ?thesis
    by blast
qed

text \<open>
  C1, as the code has it. A submission whose name is a string of trimmed length 1 to 20
  that, once \<open><\<close> and \<open>>\<close> are stripped, keeps at least one character and is text the
  store can hold (no U+0000, no unpaired surrogate), and whose score is an integer between
  0 and 999999, sent while the store is reachable and the sequence's next id is free, gets
  status 201 with \<open>{success: true, entry}\<close>, where \<open>entry\<close> is the row now in the table:
  its name is the sanitised name, its score the submitted one, its \<open>created_at\<close> the
  store's clock, and its id the sequence's value as a double, which is the value itself
  up to \<open>2 ^ 53\<close>.
\<close>

theorem submit_valid_created:
  assumes "name_in_spec (Str s)" and "strip_angle (trim s) \<noteq> []"
    and "text_ok (strip_angle (trim s))" and "score_in_spec (Num q)"
    and "link w = Up" and "seq (store w) \<le> 2 ^ 63 - 1"
    and "seq (store w) \<notin> ident ` set (rows (store w))"
  shows "fst (post_scores (Str s) (Num q) w) =
      \<lparr>status = 201, body = Obj [(''success'', Bool True), (''entry'',
         Obj [(''id'', Num (double_of_nat (seq (store w)))),
              (''name'', Str (strip_angle (trim s))),
              (''score'', Num q), (''created_at'', Str (clock w))])]\<rparr>
    \<and> (seq (store w) \<le> 2 ^ 53 \<longrightarrow> double_of_nat (seq (store w)) = of_nat (seq (store w)))
    \<and> \<lparr>ident = seq (store w), name = strip_angle (trim s), score = \<lfloor>q\<rfloor>, created_at = clock w\<rparr>
        \<in> set (rows (store (snd (post_scores (Str s) (Num q) w))))"
proof -
  let ?new = "\<lparr>ident = seq (store w), name = strip_angle (trim s), score = \<lfloor>q\<rfloor>,
               created_at = clock w\<rparr>"
  note ok = pg_insert_ok [OF assms(6) strip_angle_valid [OF assms(1,2)]
      score_in_spec_floor(1,2) [OF assms(4)] assms(7,3), of "clock w"]
  have "entry_json ?new =
      Obj [(''id'', Num (double_of_nat (seq (store w)))), (''name'', Str (strip_angle (trim s))),
           (''score'', Num q), (''created_at'', Str (clock w))]"
    by (simp add: entry_json_def score_in_spec_floor(3) [OF assms(4)] del: of_int_floor_cancel)
  then show ?thesis
    by (simp add: post_scores_Up [OF assms(1,4,5)] ok keep_best_score_def double_of_nat_exact)
qed

theorem submit_valid_created_witness:
  "fst (post_scores (Str alice) (Num 50) (fresh_world [])) =
      \<lparr>status = 201, body = Obj [(''success'', Bool True), (''entry'',
         Obj [(''id'', Num 1), (''name'', Str alice), (''score'', Num 50),
              (''created_at'', Str [])])]\<rparr>"
proof -
  have a: "strip_angle (trim alice) \<noteq> []" "text_ok (strip_angle (trim alice))"
    by (simp_all add: alice_ok(2,4)) (simp add: alice_def utf16_def)
  have b: "score_in_spec (Num 50)"
    by (simp add: score_in_spec_def)
  have c: "link (fresh_world []) = Up" "seq (store (fresh_world [])) = 1"
    "rows (store (fresh_world [])) = []" "clock (fresh_world []) = []"
    by (simp_all add: fresh_world_def empty_db_def)
  have d: "seq (store (fresh_world [])) \<le> 2 ^ 63 - 1"
    "seq (store (fresh_world [])) \<notin> ident ` set (rows (store (fresh_world [])))"
    by (simp_all add: c)
  from submit_valid_created [OF alice_ok(1) a b c(1) d]
  show ?thesis
    by (simp add: alice_ok(2) c double_of_nat_exact)
qed

text \<open>The claim as written fails on the name \<open><\<close>: it has trimmed length 1 and passes
  validation, the sanitised name is empty, the table's \<open>CHECK\<close> refuses it, and the answer
  is status 500 with no row stored.\<close>

theorem submit_angle_bracket_name_refused:
  "name_in_spec (Str (utf16 ''<'')) \<and> score_in_spec (Num 0)
   \<and> post_scores (Str (utf16 ''<'')) (Num 0) (fresh_world []) =
       (\<lparr>status = 500, body = Obj [(''error'', Str (utf16 ''Could not save score''))]\<rparr>,
        \<lparr>store = \<lparr>rows = [], seq = 2, tie_rank = (\<lambda>r. 0)\<rparr>, clock = [], link = Up, sent = [InsertReq [] 0]\<rparr>)"
proof -
  have n: "name_in_spec (Str (utf16 ''<''))"
    by (simp add: name_in_spec_def utf16_def trim_def is_space_def)
  have s: "score_in_spec (Num 0)"
    by (simp add: score_in_spec_def)
  have c: "strip_angle (trim (utf16 ''<'')) = []"
    by (simp add: utf16_def trim_def is_space_def strip_angle_def)
  have "post_scores (Str (utf16 ''<'')) (Num 0) (fresh_world []) =
       (\<lparr>status = 500, body = Obj [(''error'', Str (utf16 ''Could not save score''))]\<rparr>,
        \<lparr>store = \<lparr>rows = [], seq = 2, tie_rank = (\<lambda>r. 0)\<rparr>, clock = [], link = Up, sent = [InsertReq [] 0]\<rparr>)"
    by (simp add: post_scores_Up [OF n s] c fresh_world_def empty_db_def pg_insert_def Let_def)
  with n s show ?thesis by blast
qed

section \<open>Sanitising the name\<close>

lemma bob_ok:
  "length (trim bob_markup) = 10" "name_in_spec (Str bob_markup)"
  "strip_angle (trim bob_markup) = utf16 ''bBob/b''"
  "char_length (utf16 ''bBob/b'') = 6" "text_ok (utf16 ''bBob/b'')"
  by (simp_all add: bob_markup_def name_in_spec_def utf16_def trim_def is_space_def
      strip_angle_def is_high_surrogate_def is_low_surrogate_def)

lemma long_markup:
  "length (trim long_markup) = 21" "length (strip_angle (trim long_markup)) = 20"
  by (simp_all add: long_markup_def utf16_def trim_def is_space_def strip_angle_def)

text \<open>
  C4. For a submission that passes validation, the name sent to the store is the trimmed
  name with every \<open><\<close> and \<open>>\<close> removed, every row the submission adds to the table
  carries that name, and so does the entry of a 201 answer; the length is tested on the
  trimmed name before sanitising, so a trimmed name of more than 20 code units is refused
  even when its sanitised form has 20 or fewer. \<open><b>Bob</b>\<close> has trimmed length 10,
  passes, and is stored as \<open>bBob/b\<close>.
\<close>

theorem persisted_name_sanitized:
  "(name_in_spec (Str s) \<and> score_in_spec (Num q) \<longrightarrow>
      sent (snd (post_scores (Str s) (Num q) w))
        = sent w @ [InsertReq (strip_angle (trim s)) \<lfloor>q\<rfloor>]
      \<and> (\<forall>r \<in> set (rows (store (snd (post_scores (Str s) (Num q) w)))).
            r \<notin> set (rows (store w)) \<longrightarrow> name r = strip_angle (trim s)))
   \<and> (20 < length (trim s) \<longrightarrow>
        post_scores (Str s) sc w = (\<lparr>status = 400, body = Obj [(''error'', Str name_msg)]\<rparr>, w))
   \<and> length (trim long_markup) = 21 \<and> length (strip_angle (trim long_markup)) = 20
   \<and> length (trim bob_markup) = 10 \<and> name_in_spec (Str bob_markup)
   \<and> post_scores (Str bob_markup) (Num 7) (fresh_world t) =
       (\<lparr>status = 201, body = Obj [(''success'', Bool True), (''entry'',
          Obj [(''id'', Num 1), (''name'', Str (utf16 ''bBob/b'')), (''score'', Num 7),
               (''created_at'', Str t)])]\<rparr>,
        \<lparr>store = \<lparr>rows = [\<lparr>ident = 1, name = utf16 ''bBob/b'', score = 7, created_at = t\<rparr>],
                   seq = 2, tie_rank = (\<lambda>r. 0)\<rparr>,
         clock = t, link = Up, sent = [InsertReq (utf16 ''bBob/b'') 7]\<rparr>)"
proof (intro conjI impI ballI)
  assume v: "name_in_spec (Str s) \<and> score_in_spec (Num q)"
  then show "sent (snd (post_scores (Str s) (Num q) w))
        = sent w @ [InsertReq (strip_angle (trim s)) \<lfloor>q\<rfloor>]"
    by (simp add: sent_post_scores)
  fix r
  assume "r \<in> set (rows (store (snd (post_scores (Str s) (Num q) w))))"
    and "r \<notin> set (rows (store w))"
  with v show "name r = strip_angle (trim s)"
    using sb_insert_new_rows [of r "strip_angle (trim s)" "\<lfloor>q\<rfloor>" w]
    by (simp add: store_post_scores)
next
  assume "20 < length (trim s)"
  then have "\<not> name_in_spec (Str s)"
    by (simp add: name_in_spec_def)
  then show "post_scores (Str s) sc w = (\<lparr>status = 400, body = Obj [(''error'', Str name_msg)]\<rparr>, w)"
    by (simp add: post_scores_rejects_name status_json_def error_body_def)
next
  have "score_in_spec (Num 7)"
    by (simp add: score_in_spec_def)
  then show "post_scores (Str bob_markup) (Num 7) (fresh_world t) =
       (\<lparr>status = 201, body = Obj [(''success'', Bool True), (''entry'',
          Obj [(''id'', Num 1), (''name'', Str (utf16 ''bBob/b'')), (''score'', Num 7),
               (''created_at'', Str t)])]\<rparr>,
        \<lparr>store = \<lparr>rows = [\<lparr>ident = 1, name = utf16 ''bBob/b'', score = 7, created_at = t\<rparr>],
                   seq = 2, tie_rank = (\<lambda>r. 0)\<rparr>,
         clock = t, link = Up, sent = [InsertReq (utf16 ''bBob/b'') 7]\<rparr>)"
    by (simp add: post_scores_Up [OF bob_ok(2)] bob_ok(3,4,5) fresh_world_def fresh_insert
        entry_json_def double_of_nat_exact)
qed (simp_all add: bob_ok long_markup)

theorem persisted_name_sanitized_witness:
  "sent (snd (post_scores (Str bob_markup) (Num 7) (fresh_world []))) = [InsertReq (utf16 ''bBob/b'') 7]
   \<and> fst (post_scores (Str long_markup) (Num 7) (fresh_world [])) =
       \<lparr>status = 400, body = Obj [(''error'', Str name_msg)]\<rparr>"
proof -
  have a: "score_in_spec (Num 7)"
    by (simp add: score_in_spec_def)
  have b: "20 < length (trim long_markup)"
    by (simp add: long_markup)
  have c: "sent (fresh_world []) = []"
    by (simp add: fresh_world_def)
  from persisted_name_sanitized [of bob_markup 7 "fresh_world []" "Num 7" "[]"] bob_ok(2) a
  have "sent (snd (post_scores (Str bob_markup) (Num 7) (fresh_world [])))
        = sent (fresh_world []) @ [InsertReq (strip_angle (trim bob_markup)) \<lfloor>7 :: rat\<rfloor>]"
    by blast
  then have 1: "sent (snd (post_scores (Str bob_markup) (Num 7) (fresh_world [])))
       = [InsertReq (utf16 ''bBob/b'') 7]"
    by (simp add: c bob_ok(3))
  from persisted_name_sanitized [of long_markup 7 "fresh_world []" "Num 7" "[]"] b
  have "post_scores (Str long_markup) (Num 7) (fresh_world []) =
      (\<lparr>status = 400, body = Obj [(''error'', Str name_msg)]\<rparr>, fresh_world [])"
    by blast
  then have 2: "fst (post_scores (Str long_markup) (Num 7) (fresh_world [])) =
       \<lparr>status = 400, body = Obj [(''error'', Str name_msg)]\<rparr>"
    by simp
  from 1 2 show ?thesis by blast
qed

section \<open>Reading the leaderboard\<close>

lemma get_scores_Up:
  "link w = Up \<Longrightarrow>
   get_scores w =
     (\<lparr>status = 200, body = Obj [(''scores'', Arr (map entry_json (select_top 20 (store w))))]\<rparr>,
      w\<lparr>sent := sent w @ [SelectScoresReq]\<rparr>)"
  by (simp add: get_scores_def sb_select_scores_def Let_def json_def)

lemma get_scores_Down:
  "link w = Down \<Longrightarrow>
   fst (get_scores w) =
     \<lparr>status = 500, body = Obj [(''error'', Str (utf16 ''Could not fetch scores''))]\<rparr>"
  by (simp add: get_scores_def sb_select_scores_def Let_def failed_def status_json_def error_body_def)

lemma sorted_select_top: "sorted_wrt (\<lambda>a b. score b \<le> score a) (select_top k d)"
  unfolding select_top_def by (rule sorted_wrt_take [OF sorted_order_by_score_desc])

lemma length_select_top: "length (select_top k d) = min k (length (rows d))"
  by (simp add: select_top_def length_order_by_score_desc min.commute)

lemma set_select_top: "set (select_top k d) \<subseteq> set (rows d)"
  using set_take_subset [of k "order_by_score_desc (tie_rank d) (rows d)"]
  by (simp add: select_top_def set_order_by_score_desc)

lemma select_top_dominates:
  assumes "a \<in> set (select_top k d)"
    and "b \<in> set (drop k (order_by_score_desc (tie_rank d) (rows d)))"
  shows "score b \<le> score a"
proof -
  have "sorted_wrt (\<lambda>a b. score b \<le> score a)
          (take k (order_by_score_desc (tie_rank d) (rows d))
           @ drop k (order_by_score_desc (tie_rank d) (rows d)))"
    by (simp add: sorted_order_by_score_desc)
  with assms show ?thesis
    unfolding sorted_wrt_append select_top_def by blast
qed

text \<open>Rows of equal score come in the order the store ranks them, whatever the heap
  order.\<close>

lemma order_among_ties:
  assumes "score a = score b"
  shows "order_by_score_desc (\<lambda>r. if r = b then 0 else 1) [a, b] = [b, a]"
    and "order_by_score_desc (\<lambda>r. 0) [a, b] = [a, b]"
  using assms by (auto simp: order_by_score_desc_def)

text \<open>
  C7. On a live connection \<open>GET /api/scores\<close> answers 200 with the first 20 rows of the
  table in descending order of score: at most 20 entries, exactly 20 when the table has
  20 rows or more, each a row of the table, in non-increasing order of score, and no row
  left out has a higher score than a row returned; this for every order the store may
  give to rows of equal score.
\<close>

theorem top_scores_sorted_limited:
  assumes "link w = Up"
  shows "fst (get_scores w) =
      \<lparr>status = 200, body = Obj [(''scores'', Arr (map entry_json (select_top 20 (store w))))]\<rparr>
    \<and> length (select_top 20 (store w)) \<le> 20
    \<and> (20 \<le> length (rows (store w)) \<longrightarrow> length (select_top 20 (store w)) = 20)
    \<and> sorted_wrt (\<lambda>a b. score b \<le> score a) (select_top 20 (store w))
    \<and> set (select_top 20 (store w)) \<subseteq> set (rows (store w))
    \<and> (\<forall>a \<in> set (select_top 20 (store w)).
         \<forall>b \<in> set (drop 20 (order_by_score_desc (tie_rank (store w)) (rows (store w)))).
           score b \<le> score a)"
  using assms
  by (simp add: get_scores_Up length_select_top sorted_select_top set_select_top
      select_top_dominates)

lemma upt25: "[0..<25] = [0,1,2,3,4,5,6,7,8,9,10,11,12,13,14,15,16,17,18,19,20,21,22,23,24]"
  by (simp add: upt_rec)

lemma top25: "map score (select_top 20 table25) =
   [240, 230, 220, 210, 200, 190, 180, 170, 160, 150, 140, 130, 120, 110, 100, 90, 80, 70, 60, 50]"
  by (simp add: select_top_def table25_def order_by_score_desc_def upt25)

theorem top_scores_sorted_limited_witness:
  "status (fst (get_scores \<lparr>store = table25, clock = [], link = Up, sent = []\<rparr>)) = 200
   \<and> length (rows table25) = 25
   \<and> length (select_top 20 table25) = 20
   \<and> map score (select_top 20 table25) =
      [240, 230, 220, 210, 200, 190, 180, 170, 160, 150, 140, 130, 120, 110, 100, 90, 80, 70, 60, 50]"
proof -
  let ?w = "\<lparr>store = table25, clock = [], link = Up, sent = []\<rparr>"
  have up: "link ?w = Up"
    by simp
  have len: "length (rows table25) = 25"
    by (simp add: table25_def)
  from top_scores_sorted_limited [OF up] len
  have "status (fst (get_scores ?w)) = 200 \<and> length (select_top 20 table25) = 20"
    by simp
  with len top25 show ?thesis
    by blast
qed

section \<open>Statistics\<close>

lemma get_stats_Up:
  "link w = Up \<Longrightarrow>
   fst (get_stats w) =
     \<lparr>status = 200,
      body = Obj [(''totalGames'', Num (double_of_nat (length (rows (store w))))),
                  (''allTimeHigh'',
                    (case select_top 1 (store w) of [r] \<Rightarrow> best_json r | _ \<Rightarrow> Null))]\<rparr>"
  by (simp add: get_stats_def sb_count_def sb_select_best_def Let_def json_def failed_def
      double_of_nat_0 split: list.splits)

lemma get_stats_Throws:
  "link w = Throws \<Longrightarrow>
   fst (get_stats w) =
     \<lparr>status = 500, body = Obj [(''error'', Str (utf16 ''Stats unavailable''))]\<rparr>"
  by (simp add: get_stats_def sb_count_def Let_def status_json_def error_body_def)

text \<open>
  C8. On a live connection and an empty table \<open>GET /api/stats\<close> answers
  \<open>{totalGames: 0, allTimeHigh: null}\<close>.
\<close>

theorem stats_empty_table:
  assumes "link w = Up" and "rows (store w) = []"
  shows "fst (get_stats w) =
     \<lparr>status = 200, body = Obj [(''totalGames'', Num 0), (''allTimeHigh'', Null)]\<rparr>"
  using assms
  by (simp add: get_stats_Up select_top_def order_by_score_desc_def double_of_nat_0)

theorem stats_empty_table_witness:
  "fst (get_stats (fresh_world [])) =
     \<lparr>status = 200, body = Obj [(''totalGames'', Num 0), (''allTimeHigh'', Null)]\<rparr>"
proof -
  have "link (fresh_world []) = Up" and "rows (store (fresh_world [])) = []"
    by (simp_all add: fresh_world_def empty_db_def)
  then show ?thesis
    by (rule stats_empty_table)
qed

text \<open>
  C5, at the failing input. When the store cannot be reached, both queries of
  \<open>GET /api/stats\<close> resolve with \<open>error\<close> set and \<open>count\<close> and \<open>data\<close> null; the handler
  never reads \<open>error\<close>, and answers 200 with \<open>{totalGames: 0, allTimeHigh: null}\<close>, whatever
  the table holds.
\<close>

theorem stats_store_down_reports_zero:
  assumes "link w = Down"
  shows "fst (get_stats w) =
     \<lparr>status = 200, body = Obj [(''totalGames'', Num 0), (''allTimeHigh'', Null)]\<rparr>"
  using assms
  by (simp add: get_stats_def sb_count_def sb_select_best_def Let_def json_def failed_def)

theorem stats_store_down_reports_zero_witness:
  "fst (get_stats \<lparr>store = table25, clock = [], link = Down, sent = []\<rparr>) =
     \<lparr>status = 200, body = Obj [(''totalGames'', Num 0), (''allTimeHigh'', Null)]\<rparr>
   \<and> fst (get_scores \<lparr>store = table25, clock = [], link = Down, sent = []\<rparr>) =
     \<lparr>status = 500, body = Obj [(''error'', Str (utf16 ''Could not fetch scores''))]\<rparr>"
proof -
  let ?w = "\<lparr>store = table25, clock = [], link = Down, sent = []\<rparr>"
  have down: "link ?w = Down"
    by simp
  from stats_store_down_reports_zero [OF down] get_scores_Down [OF down]
  show ?thesis
    by blast
qed

section \<open>Configuration and credentials\<close>

text \<open>
  C6. \<open>GET /api/config\<close> answers 503 with only an error message whenever the store's URL
  or the anon key is unset (or empty), and when both are set it answers 200 with exactly
  \<open>{supabaseUrl, supabaseKey}\<close>, the URL and the anon key.
\<close>

theorem config_needs_both_values:
  "((SUPABASE_URL e = None \<or> SUPABASE_URL e = Some []
      \<or> SUPABASE_ANON_KEY e = None \<or> SUPABASE_ANON_KEY e = Some []) \<longrightarrow>
      get_config e =
        \<lparr>status = 503, body = Obj [(''error'', Str (utf16 ''Server not configured''))]\<rparr>)
   \<and> (SUPABASE_URL e = Some u \<and> u \<noteq> [] \<and> SUPABASE_ANON_KEY e = Some k \<and> k \<noteq> [] \<longrightarrow>
      get_config e =
        \<lparr>status = 200, body = Obj [(''supabaseUrl'', Str u), (''supabaseKey'', Str k)]\<rparr>)"
  by (auto simp: get_config_def env_val_def status_json_def json_def error_body_def)

theorem config_needs_both_values_witness:
  "get_config \<lparr>SUPABASE_URL = Some (utf16 ''https://db''), SUPABASE_ANON_KEY = None,
               SUPABASE_SERVICE_ROLE_KEY = Some (utf16 ''svc'')\<rparr> =
     \<lparr>status = 503, body = Obj [(''error'', Str (utf16 ''Server not configured''))]\<rparr>
   \<and> get_config \<lparr>SUPABASE_URL = Some (utf16 ''https://db''), SUPABASE_ANON_KEY = Some (utf16 ''anon''),
               SUPABASE_SERVICE_ROLE_KEY = Some (utf16 ''svc'')\<rparr> =
     \<lparr>status = 200, body = Obj [(''supabaseUrl'', Str (utf16 ''https://db'')),
                                (''supabaseKey'', Str (utf16 ''anon''))]\<rparr>"
proof -
  let ?e1 = "\<lparr>SUPABASE_URL = Some (utf16 ''https://db''), SUPABASE_ANON_KEY = None,
               SUPABASE_SERVICE_ROLE_KEY = Some (utf16 ''svc'')\<rparr>"
  let ?e2 = "\<lparr>SUPABASE_URL = Some (utf16 ''https://db''), SUPABASE_ANON_KEY = Some (utf16 ''anon''),
               SUPABASE_SERVICE_ROLE_KEY = Some (utf16 ''svc'')\<rparr>"
  have ne: "utf16 ''https://db'' \<noteq> []" "utf16 ''anon'' \<noteq> []"
    by (simp_all add: utf16_def)
  from config_needs_both_values [of ?e1 "[]" "[]"]
  have 1: "get_config ?e1 =
     \<lparr>status = 503, body = Obj [(''error'', Str (utf16 ''Server not configured''))]\<rparr>"
    by simp
  from config_needs_both_values [of ?e2 "utf16 ''https://db''" "utf16 ''anon''"] ne
  have 2: "get_config ?e2 =
     \<lparr>status = 200, body = Obj [(''supabaseUrl'', Str (utf16 ''https://db'')),
                                (''supabaseKey'', Str (utf16 ''anon''))]\<rparr>"
    by simp
  from 1 2 show ?thesis by blast
qed

text \<open>
  C9. No answer of the five routes depends on the value of the service-role key: two
  configurations with the same URL and anon key, whose service-role key is set in both
  or in neither, get the same answer to every request in every world. \<open>GET /api/config\<close>
  answers with the URL and the anon key only, and \<open>GET /health\<close> reports the service-role
  key as the boolean of its presence.
\<close>

theorem service_key_never_exposed:
  "(SUPABASE_URL e = SUPABASE_URL e' \<and> SUPABASE_ANON_KEY e = SUPABASE_ANON_KEY e'
      \<and> truthy (env_val (SUPABASE_SERVICE_ROLE_KEY e))
          = truthy (env_val (SUPABASE_SERVICE_ROLE_KEY e')) \<longrightarrow>
      handle e ts rq w = handle e' ts rq w)
   \<and> get_config (e\<lparr>SUPABASE_SERVICE_ROLE_KEY := k\<rparr>) = get_config e
   \<and> (body (get_config e) = Obj [(''error'', Str (utf16 ''Server not configured''))]
       \<or> body (get_config e) = Obj [(''supabaseUrl'', env_val (SUPABASE_URL e)),
                                    (''supabaseKey'', env_val (SUPABASE_ANON_KEY e))])
   \<and> health ts e =
       \<lparr>status = 200,
        body = Obj [(''status'', Str (utf16 ''ok'')), (''ts'', Str ts),
          (''env'', Obj [(''supabase'', Bool (SUPABASE_URL e \<noteq> None \<and> SUPABASE_URL e \<noteq> Some [])),
             (''anonKey'', Bool (SUPABASE_ANON_KEY e \<noteq> None \<and> SUPABASE_ANON_KEY e \<noteq> Some [])),
             (''svcKey'', Bool (SUPABASE_SERVICE_ROLE_KEY e \<noteq> None
                                 \<and> SUPABASE_SERVICE_ROLE_KEY e \<noteq> Some []))])]\<rparr>"
proof (intro conjI impI)
  assume "SUPABASE_URL e = SUPABASE_URL e' \<and> SUPABASE_ANON_KEY e = SUPABASE_ANON_KEY e'
      \<and> truthy (env_val (SUPABASE_SERVICE_ROLE_KEY e))
          = truthy (env_val (SUPABASE_SERVICE_ROLE_KEY e'))"
  then show "handle e ts rq w = handle e' ts rq w"
    by (cases rq) (simp_all add: handle_def get_config_def health_def)
next
  show "get_config (e\<lparr>SUPABASE_SERVICE_ROLE_KEY := k\<rparr>) = get_config e"
    by (simp add: get_config_def)
next
  show "body (get_config e) = Obj [(''error'', Str (utf16 ''Server not configured''))]
       \<or> body (get_config e) = Obj [(''supabaseUrl'', env_val (SUPABASE_URL e)),
                                    (''supabaseKey'', env_val (SUPABASE_ANON_KEY e))]"
    by (simp add: get_config_def status_json_def json_def error_body_def)
next
  have "truthy (env_val v) \<longleftrightarrow> v \<noteq> None \<and> v \<noteq> Some []" for v
    by (cases v) (simp_all add: env_val_def)
  then show "health ts e =
       \<lparr>status = 200,
        body = Obj [(''status'', Str (utf16 ''ok'')), (''ts'', Str ts),
          (''env'', Obj [(''supabase'', Bool (SUPABASE_URL e \<noteq> None \<and> SUPABASE_URL e \<noteq> Some [])),
             (''anonKey'', Bool (SUPABASE_ANON_KEY e \<noteq> None \<and> SUPABASE_ANON_KEY e \<noteq> Some [])),
             (''svcKey'', Bool (SUPABASE_SERVICE_ROLE_KEY e \<noteq> None
                                 \<and> SUPABASE_SERVICE_ROLE_KEY e \<noteq> Some []))])]\<rparr>"
    by (simp add: health_def json_def)
qed

theorem service_key_never_exposed_witness:
  "handle \<lparr>SUPABASE_URL = Some (utf16 ''https://db''), SUPABASE_ANON_KEY = Some (utf16 ''anon''),
           SUPABASE_SERVICE_ROLE_KEY = Some (utf16 ''secret-one'')\<rparr> [] HealthCheck (fresh_world [])
   = handle \<lparr>SUPABASE_URL = Some (utf16 ''https://db''), SUPABASE_ANON_KEY = Some (utf16 ''anon''),
           SUPABASE_SERVICE_ROLE_KEY = Some (utf16 ''another'')\<rparr> [] HealthCheck (fresh_world [])"
proof -
  let ?e = "\<lparr>SUPABASE_URL = Some (utf16 ''https://db''), SUPABASE_ANON_KEY = Some (utf16 ''anon''),
           SUPABASE_SERVICE_ROLE_KEY = Some (utf16 ''secret-one'')\<rparr>"
  let ?e' = "\<lparr>SUPABASE_URL = Some (utf16 ''https://db''), SUPABASE_ANON_KEY = Some (utf16 ''anon''),
           SUPABASE_SERVICE_ROLE_KEY = Some (utf16 ''another'')\<rparr>"
  have "truthy (env_val (SUPABASE_SERVICE_ROLE_KEY ?e))
      = truthy (env_val (SUPABASE_SERVICE_ROLE_KEY ?e'))"
    by (simp add: env_val_def utf16_def)
  with service_key_never_exposed [of ?e ?e' "[]" HealthCheck "fresh_world []" "None"]
  show ?thesis
    by simp
qed

end
